theory Spec2Isabelle
  imports Complex_Main
begin

section \<open>The PRIME surrogate model and its training objective (prime.py)\<close>

text \<open>
  Tensors of 32-bit floats are modelled over the reals: a vector is a \<open>real list\<close>, a
  batch of vectors a \<open>real list list\<close> (one row per example). Rounding is not modelled.
  The development covers the non-contextual model (\<open>contextual = False\<close>, the default of
  \<open>PRIMETransformerModel.__init__\<close> and what \<open>train_eval_offline\<close> builds) with
  \<open>num_outputs = 1\<close>. All tensors of one batch share their leading dimension; elementwise
  operations between them are written with \<open>map2\<close>.
\<close>

subsection \<open>Tensor operations\<close>

datatype py_error =
    KeyError string
  | KeyErrorInt int
  | AttributeError string
  | TypeError
  | ValueError
  | IndexError
  | InvalidArgumentError

text \<open>\<open>tf.clip_by_value(t, lo, hi)\<close> is \<open>maximum(minimum(t, hi), lo)\<close>.\<close>

definition clip_by_value :: "real \<Rightarrow> real \<Rightarrow> real \<Rightarrow> real" where
  "clip_by_value t clip_value_min clip_value_max = max (min t clip_value_max) clip_value_min"

text \<open>\<open>tf.reduce_mean\<close> of a non-empty tensor (of an empty one it is NaN).\<close>

definition reduce_mean :: "real list \<Rightarrow> real" where
  "reduce_mean xs = sum_list xs / real (length xs)"

definition softmax :: "real list \<Rightarrow> real list" where
  "softmax logits = map (\<lambda>x. exp x / sum_list (map exp logits)) logits"

definition log_softmax :: "real list \<Rightarrow> real list" where
  "log_softmax logits = map (\<lambda>x. x - ln (sum_list (map exp logits))) logits"

subsection \<open>Loss helpers\<close>

text \<open>\<open>weighted_mse_loss\<close> (prime.py 199-202), on squeezed tensors.\<close>

definition weighted_mse_loss :: "real list \<Rightarrow> real list \<Rightarrow> real list \<Rightarrow> real" where
  "weighted_mse_loss inp target weight =
     reduce_mean (map2 (*) (map2 (\<lambda>a b. (a - b)\<^sup>2) inp target) weight)"

text \<open>\<open>weighted_approx_loss\<close> (prime.py 214-218).\<close>

definition weighted_approx_loss :: "real list \<Rightarrow> real list \<Rightarrow> real list \<Rightarrow> real" where
  "weighted_approx_loss inp target weight =
     reduce_mean (map2 (*) (map2 (\<lambda>a b. \<bar>a - b\<bar> / (\<bar>b\<bar> + 1 / 1000000)) inp target) weight)"

text \<open>
  \<open>tf.nn.sigmoid_cross_entropy_with_logits\<close> with all labels 1:
  \<open>max(x, 0) - x * 1 + log(1 + exp(-abs(x)))\<close>.
\<close>

definition sigmoid_cross_entropy_ones :: "real \<Rightarrow> real" where
  "sigmoid_cross_entropy_ones x = max x 0 - x + ln (1 + exp (- \<bar>x\<bar>))"

text \<open>\<open>ranking_trainable_loss\<close> with \<open>context=None\<close> (prime.py 286-294): the mean over all
  pairs \<open>(i, j)\<close> of the batch.\<close>

definition ranking_trainable_loss :: "real list \<Rightarrow> real list \<Rightarrow> real" where
  "ranking_trainable_loss inp target =
     reduce_mean (concat (map (\<lambda>(a, b). map (\<lambda>(a', b').
        sigmoid_cross_entropy_ones (sgn (a - a') * (b - b'))) (zip inp target)) (zip inp target)))"

subsection \<open>The model\<close>

text \<open>
  The sub-networks are parameters: each is a function of one example and of the Keras
  \<open>training\<close> flag (dropout is active only when it is set; a pass in training mode is
  taken with one fixed dropout mask). \<open>negative_sampler\<close> is
  \<open>None\<close> or the batch that the external sampler's \<open>run_inference\<close> returns for this
  model. \<open>input_grad\<close> is what \<open>tape.gradient\<close> yields for one example: the gradient of
  the prediction (with \<open>training=False\<close>) with respect to that example's input.
\<close>

record prime_model =
  base_network :: "real list \<Rightarrow> bool \<Rightarrow> real list"
  all_networks :: "(real list \<Rightarrow> bool \<Rightarrow> real) list"
  voting_network :: "real list \<Rightarrow> bool \<Rightarrow> real list"
  num_votes :: nat
  cql_alpha_value :: real
  infeasible_alpha :: real
  opt_lr :: real
  num_gradient_infer_steps :: nat
  negative_sampler :: "real list list option"
  input_grad :: "real list \<Rightarrow> real list"

text \<open>What \<open>__init__\<close> builds (prime.py 487-518): \<open>num_votes\<close> experts and a voting
  network whose last layer has \<open>num_votes\<close> units. There is at least one expert: with
  none, \<open>tf.concat\<close> of the empty list of outputs fails.\<close>

definition wf_model :: "prime_model \<Rightarrow> bool" where
  "wf_model m \<longleftrightarrow> 0 < num_votes m \<and> length (all_networks m) = num_votes m \<and>
     (\<forall>e t. length (voting_network m e t) = num_votes m)"

text \<open>The forward pass \<open>call\<close> (prime.py 535-574), one example at a time.\<close>

definition all_outputs :: "prime_model \<Rightarrow> real list \<Rightarrow> bool \<Rightarrow> real list" where
  "all_outputs m x training =
     map (\<lambda>idx. (all_networks m ! idx) (base_network m x training) training) [0..<num_votes m]"

definition vote_logit :: "prime_model \<Rightarrow> real list \<Rightarrow> bool \<Rightarrow> real list" where
  "vote_logit m x training = voting_network m (base_network m x training) training"

definition vote_prob :: "prime_model \<Rightarrow> real list \<Rightarrow> bool \<Rightarrow> real list" where
  "vote_prob m x training = softmax (vote_logit m x training)"

definition fwd_model_pred :: "prime_model \<Rightarrow> real list \<Rightarrow> bool \<Rightarrow> real" where
  "fwd_model_pred m x training =
     sum_list (map2 (*) (vote_prob m x training) (all_outputs m x training))"

definition vote_entropy :: "prime_model \<Rightarrow> real list \<Rightarrow> bool \<Rightarrow> real" where
  "vote_entropy m x training =
     sum_list (map2 (*) (log_softmax (vote_logit m x training)) (vote_prob m x training))"

text \<open>\<open>call(..., with_logging=True)\<close> returns the predictions and
  \<open>extra_dict['vote_entropy']\<close>; \<open>call\<close> the predictions alone.\<close>

definition call_with_logging :: "prime_model \<Rightarrow> real list list \<Rightarrow> bool \<Rightarrow> real list \<times> real" where
  "call_with_logging m inputs training =
     (map (\<lambda>x. fwd_model_pred m x training) inputs,
      reduce_mean (map (\<lambda>x. vote_entropy m x training) inputs))"

definition call :: "prime_model \<Rightarrow> real list list \<Rightarrow> bool \<Rightarrow> real list" where
  "call m inputs training = fst (call_with_logging m inputs training)"

subsection \<open>The negative-sample generator\<close>

text \<open>
  One iteration of the loop of \<open>infer_negatives\<close> (prime.py 759-768). \<open>grad\<close> has the
  shape of \<open>log_probs\<close>, one row per example; \<open>grad[0]\<close> is its first row, which
  broadcasting adds to every row of \<open>log_probs\<close>. On an empty batch \<open>grad[0]\<close> is out
  of range.
\<close>

definition infer_negatives_step :: "prime_model \<Rightarrow> real list list \<Rightarrow> py_error + real list list" where
  "infer_negatives_step m log_probs =
     (case map (input_grad m) log_probs of
        [] \<Rightarrow> Inl IndexError
      | grad0 # _ \<Rightarrow> Inr (map (\<lambda>row. map2 (+) row (map (\<lambda>g. opt_lr m * g) grad0)) log_probs))"

fun infer_negatives_loop :: "prime_model \<Rightarrow> nat \<Rightarrow> real list list \<Rightarrow> py_error + real list list" where
  "infer_negatives_loop m 0 log_probs = Inr log_probs"
| "infer_negatives_loop m (Suc n) log_probs =
     (case infer_negatives_step m log_probs of
        Inl e \<Rightarrow> Inl e
      | Inr log_probs' \<Rightarrow> infer_negatives_loop m n log_probs')"

record data_batch =
  design :: "real list list"
  objective :: "real list"
  invalid_design :: "real list list option"
  invalid_objective :: "real list option"

definition infer_negatives :: "prime_model \<Rightarrow> data_batch \<Rightarrow> py_error + real list list" where
  "infer_negatives m batch = infer_negatives_loop m (num_gradient_infer_steps m) (design batch)"

subsection \<open>Rank diagnostics\<close>

text \<open>
  \<open>tf.argsort(values)\<close>, ascending: the indices in the order of their values, the lower
  index first among equal values.
\<close>

definition argsort :: "real list \<Rightarrow> nat list" where
  "argsort xs = sort_key (\<lambda>i. xs ! i) [0..<length xs]"

definition reduce_std :: "real list \<Rightarrow> real" where
  "reduce_std xs = sqrt (reduce_mean (map (\<lambda>x. (x - reduce_mean xs)\<^sup>2) xs))"

text \<open>
  \<open>ranking_loss\<close> with \<open>context=None\<close> (prime.py 250-261): the Pearson correlation of
  the ranks. \<open>tf.squeeze\<close> turns a tensor of shape \<open>[1, 1]\<close> into a scalar, which
  \<open>tf.argsort\<close> rejects: on one example the function raises \<open>InvalidArgumentError\<close>.
\<close>

definition ranking_loss :: "real list \<Rightarrow> real list \<Rightarrow> py_error + real" where
  "ranking_loss inp target =
     (if length inp = 1 \<or> length target = 1 then Inl InvalidArgumentError
      else (let input_ranks = map real (argsort (map real (argsort inp)));
                target_ranks = map real (argsort (map real (argsort target)));
                std_input = reduce_std input_ranks;
                std_target = reduce_std target_ranks;
                cov = reduce_mean (map2 (\<lambda>t i. (t - reduce_mean target_ranks) *
                                               (i - reduce_mean input_ranks))
                                     target_ranks input_ranks)
            in Inr (cov / (std_target * std_input))))"

text \<open>\<open>kendall_correlation\<close> with \<open>context=None\<close> (prime.py 325-335).\<close>

definition kendall_correlation :: "real list \<Rightarrow> real list \<Rightarrow> real" where
  "kendall_correlation inp target =
     (let positive_pairs = concat (map (\<lambda>(a, b). map (\<lambda>(a', b').
             if 0 \<le> sgn (a - a') * sgn (b - b') then 1 else 0) (zip inp target))
           (zip inp target));
          n = real (length inp);
          total_positive = sum_list positive_pairs - n;
          ratio = total_positive / (n * (n - 1))
      in 2 * ratio - 1)"

subsection \<open>The training objective\<close>

text \<open>
  The entries of \<open>loss_dict\<close> that \<open>compute_loss\<close> (prime.py 576-721) fills, apart from
  \<open>y_values_max\<close>. The entries written under \<open>inp_batch_type is not 'valid'\<close> are
  optional: \<open>None\<close> is an absent key.
\<close>

record loss_dict =
  ld_y_values_mean :: real
  ld_vote_entropy :: real
  ld_negatives_dist :: real
  ld_mse_loss :: real
  ld_avg_approx_loss :: real
  ld_avg_ranking_loss :: real
  ld_avg_ranking_train_loss :: real
  ld_avg_kendall_loss :: real
  ld_cql_loss :: real
  ld_negatives_pred :: real
  ld_model_pred_average :: real
  ld_invalid_vote_entropy :: "real option"
  ld_y_value_infeasible :: "real option"
  ld_mse_loss_invalid :: "real option"
  ld_mse_loss_overall :: "real option"
  ld_avg_approx_loss_invalid :: "real option"

text \<open>prime.py 624-639: the predictions on the negatives, before clipping. With an external
  sampler the forward pass gets the caller's \<open>training\<close>; with the built-in generator
  it is \<open>self(negatives_batch['design'], training=True)\<close>.\<close>

definition negatives_forward :: "prime_model \<Rightarrow> data_batch \<Rightarrow> bool \<Rightarrow> py_error + real list" where
  "negatives_forward m data_batch training =
     (case negative_sampler m of
        Some negatives_batch \<Rightarrow> Inr (call m negatives_batch training)
      | None \<Rightarrow>
          (case infer_negatives m data_batch of
             Inl e \<Rightarrow> Inl e
           | Inr negatives_batch \<Rightarrow> Inr (call m negatives_batch True)))"

text \<open>prime.py 641-688: the loss on the valid batch and on the negatives. The call of
  \<open>ranking_loss\<close> (prime.py 673) is unconditional, so its error is the error of the whole.\<close>

definition valid_losses ::
  "prime_model \<Rightarrow> data_batch \<Rightarrow> string \<Rightarrow> bool \<Rightarrow> real \<Rightarrow> real list
     \<Rightarrow> py_error + loss_dict \<times> real" where
  "valid_losses m data_batch loss_type training ranking_penalty_weight negatives_pred0 =
     (let weights = map (\<lambda>_. 1) (objective data_batch);
          (model_pred, extra_vote_entropy) = call_with_logging m (design data_batch) training;
          negatives_pred = map (\<lambda>p. clip_by_value p (- 4000) 4000) negatives_pred0;
          cql_loss = clip_by_value (reduce_mean negatives_pred) (- 4000) 1000000;
          mse_loss = weighted_mse_loss model_pred (objective data_batch) weights;
          avg_ranking_train_loss =
            (if loss_type = ''mse+rank''
             then ranking_trainable_loss model_pred (objective data_batch) else 0);
          avg_approx_loss = weighted_approx_loss model_pred (objective data_batch) weights
      in case ranking_loss model_pred (objective data_batch) of
           Inl e \<Rightarrow> Inl e
         | Inr avg_ranking_loss \<Rightarrow>
             (let avg_kendall_loss = kendall_correlation model_pred (objective data_batch);
                  train_loss = mse_loss;
                  train_loss = train_loss + ranking_penalty_weight * avg_ranking_train_loss;
                  train_loss = train_loss + cql_alpha_value m * cql_loss
              in Inr (\<lparr>ld_y_values_mean = reduce_mean (objective data_batch),
                       ld_vote_entropy = extra_vote_entropy,
                       ld_negatives_dist = reduce_mean negatives_pred,
                       ld_mse_loss = mse_loss,
                       ld_avg_approx_loss = avg_approx_loss,
                       ld_avg_ranking_loss = avg_ranking_loss,
                       ld_avg_ranking_train_loss = avg_ranking_train_loss,
                       ld_avg_kendall_loss = avg_kendall_loss,
                       ld_cql_loss = cql_loss,
                       ld_negatives_pred = reduce_mean negatives_pred,
                       ld_model_pred_average = reduce_mean model_pred,
                       ld_invalid_vote_entropy = None,
                       ld_y_value_infeasible = None,
                       ld_mse_loss_invalid = None,
                       ld_mse_loss_overall = None,
                       ld_avg_approx_loss_invalid = None\<rparr>, train_loss)))"

text \<open>prime.py 690-720: the branch of \<open>inp_batch_type is not 'valid'\<close>. Reading a key that
  the batch lacks raises \<open>KeyError\<close>.\<close>

definition invalid_losses ::
  "prime_model \<Rightarrow> data_batch \<Rightarrow> bool \<Rightarrow> loss_dict \<times> real \<Rightarrow> py_error + loss_dict \<times> real" where
  "invalid_losses m data_batch training acc =
     (case invalid_design data_batch of
        None \<Rightarrow> Inl (KeyError ''invalid/design'')
      | Some inv_design \<Rightarrow>
          (let (loss_dict, train_loss) = acc;
               weights_negatives = map (\<lambda>_. 1) (objective data_batch);
               (model_pred_invalid, invalid_vote_entropy) =
                  call_with_logging m inv_design training;
               y_value_infeasible =
                  clip_by_value (reduce_mean model_pred_invalid) (- 1000) 1000000;
               train_loss = train_loss + infeasible_alpha m * y_value_infeasible
           in case invalid_objective data_batch of
                None \<Rightarrow> Inl (KeyError ''invalid/objective'')
              | Some inv_objective \<Rightarrow>
                  (let mse_loss_invalid =
                         weighted_mse_loss model_pred_invalid inv_objective weights_negatives;
                       avg_approx_loss_invalid =
                         weighted_approx_loss model_pred_invalid inv_objective weights_negatives
                   in Inr (loss_dict\<lparr>
                        ld_invalid_vote_entropy := Some invalid_vote_entropy,
                        ld_y_value_infeasible := Some y_value_infeasible,
                        ld_mse_loss_invalid := Some mse_loss_invalid,
                        ld_mse_loss_overall := Some (ld_mse_loss loss_dict + mse_loss_invalid),
                        ld_avg_approx_loss_invalid := Some avg_approx_loss_invalid\<rparr>,
                      train_loss))))"

text \<open>
  What a caller passes as \<open>inp_batch_type\<close>: nothing (the default \<open>None\<close>), the literal
  \<open>'valid'\<close>, or any other string object, among them a string that equals \<open>'valid'\<close>
  without being the interned literal. The test \<open>inp_batch_type is not 'valid'\<close> compares
  identities, so it is false for the literal alone.
\<close>

datatype batch_type_arg = NoneArg | ValidLiteral | OtherString string

text \<open>\<open>compute_loss\<close> (prime.py 576-721).\<close>

definition compute_loss ::
  "prime_model \<Rightarrow> data_batch \<Rightarrow> string \<Rightarrow> bool \<Rightarrow> real \<Rightarrow> batch_type_arg
     \<Rightarrow> py_error + loss_dict \<times> real" where
  "compute_loss m data_batch loss_type training ranking_penalty_weight inp_batch_type =
     (case negatives_forward m data_batch training of
        Inl e \<Rightarrow> Inl e
      | Inr negatives_pred0 \<Rightarrow>
          (case valid_losses m data_batch loss_type training ranking_penalty_weight
                  negatives_pred0 of
             Inl e \<Rightarrow> Inl e
           | Inr acc \<Rightarrow>
               if inp_batch_type \<noteq> ValidLiteral
               then invalid_losses m data_batch training acc
               else Inr acc))"

text \<open>\<open>perform_training\<close> (prime.py 723-744) returns the loss dictionary of
  \<open>compute_loss(batch, loss_type, training=True, ranking_penalty_weight=...)\<close>; the
  optimizer's update of the weights is not modelled.\<close>

definition perform_training ::
  "prime_model \<Rightarrow> data_batch \<Rightarrow> string \<Rightarrow> real \<Rightarrow> py_error + loss_dict" where
  "perform_training m batch loss_type ranking_penalty_weight =
     (case compute_loss m batch loss_type True ranking_penalty_weight NoneArg of
        Inl e \<Rightarrow> Inl e
      | Inr (loss_dict, loss_train) \<Rightarrow> Inr loss_dict)"

text \<open>\<open>measure_stats\<close> (prime.py 746-751).\<close>

definition measure_stats :: "prime_model \<Rightarrow> data_batch \<Rightarrow> batch_type_arg \<Rightarrow> py_error + loss_dict" where
  "measure_stats m batch batch_type =
     (case compute_loss m batch ''mse+rank'' False 0 batch_type of
        Inl e \<Rightarrow> Inl e
      | Inr (loss_dict, _) \<Rightarrow> Inr loss_dict)"

section \<open>The feasibility-stratified dataset\<close>

subsection \<open>Loading\<close>

definition AREA_THRESHOLD :: real where
  "AREA_THRESHOLD = 27"

text \<open>\<open>_active_training_keys\<close> (prime.py 895-898).\<close>

definition active_training_keys :: "string list" where
  "active_training_keys =
     [''param_1'', ''param_2'', ''param_3'', ''param_4'', ''param_5'',
      ''param_6'', ''param_7'', ''param_8'', ''param_9'', ''param_10'']"

text \<open>
  The field configuration, with its lines parsed: the field name and the value list of
  each line, in the order of the lines. Reading the text is not modelled.
\<close>

type_synonym config = "(string \<times> int list) list"

text \<open>\<open>_design_space_dict\<close>: the line of a field name; a later line with the same name
  replaces an earlier one.\<close>

definition design_space_dict :: "config \<Rightarrow> string \<Rightarrow> int list option" where
  "design_space_dict cfg = map_of (rev cfg)"

text \<open>
  The end of \<open>load_or_refresh_config\<close> (prime.py 1034-1037) looks every active training
  key up and raises \<open>KeyError\<close> at the first one that the configuration lacks. The result
  is the \<open>value_range\<close> of each active key.
\<close>

fun lookup_keys :: "config \<Rightarrow> string list \<Rightarrow> py_error + int list list" where
  "lookup_keys cfg [] = Inr []"
| "lookup_keys cfg (key # keys) =
     (case design_space_dict cfg key of
        None \<Rightarrow> Inl (KeyError key)
      | Some value_range \<Rightarrow>
          (case lookup_keys cfg keys of
             Inl e \<Rightarrow> Inl e
           | Inr value_ranges \<Rightarrow> Inr (value_range # value_ranges)))"

definition load_or_refresh_config :: "config \<Rightarrow> py_error + int list list" where
  "load_or_refresh_config cfg = lookup_keys cfg active_training_keys"

text \<open>
  One record of the raw source, as \<open>parse_prime_tfrecords\<close> declares it (prime.py
  1262-1278): a float for every parameter name, \<open>runtime\<close> and \<open>area\<close> as floats,
  \<open>infeasible\<close> as a 64-bit integer.
\<close>

record raw_record =
  r_param :: "string \<Rightarrow> real"
  r_runtime :: real
  r_area :: real
  r_infeasible :: int

text \<open>
  \<open>tf.convert_to_tensor(column, tf.int32)\<close> (prime.py 961) casts every element of the
  column. The cast of a float drops its fractional part (rounds towards zero); outside
  the range of 32-bit integers it gives the least 32-bit integer. The cast of a 64-bit
  integer keeps the low 32 bits.
\<close>

definition cast_int32 :: "real \<Rightarrow> int" where
  "cast_int32 r =
     (let t = (if 0 \<le> r then \<lfloor>r\<rfloor> else \<lceil>r\<rceil>)
      in if - (2 ^ 31) \<le> t \<and> t < 2 ^ 31 then t else - (2 ^ 31))"

definition narrow_int32 :: "int \<Rightarrow> int" where
  "narrow_int32 x = (x + 2 ^ 31) mod 2 ^ 32 - 2 ^ 31"

text \<open>
  \<open>design_space_map = dict(zip(value_range, index_vals))\<close>: a later occurrence of a value
  overrides an earlier one; \<open>design_space_map[x]\<close> raises \<open>KeyError\<close> for a value that
  is not in \<open>value_range\<close>.
\<close>

fun design_space_map :: "int list \<Rightarrow> nat \<Rightarrow> int \<Rightarrow> nat option" where
  "design_space_map [] idx x = None"
| "design_space_map (v # vs) idx x =
     (case design_space_map vs (Suc idx) x of
        Some i \<Rightarrow> Some i
      | None \<Rightarrow> if v = x then Some idx else None)"

fun map_column :: "int list \<Rightarrow> int list \<Rightarrow> py_error + nat list" where
  "map_column value_range [] = Inr []"
| "map_column value_range (x # xs) =
     (case design_space_map value_range 0 x of
        None \<Rightarrow> Inl (KeyErrorInt x)
      | Some i \<Rightarrow> (case map_column value_range xs of Inl e \<Rightarrow> Inl e | Inr is \<Rightarrow> Inr (i # is)))"

text \<open>The columns of the parameters, one after the other, mapped to dense indices
  (prime.py 969-977).\<close>

fun map_columns :: "int list list \<Rightarrow> int list list \<Rightarrow> py_error + nat list list" where
  "map_columns (vr # vrs) (c # cs) =
     (case map_column vr c of
        Inl e \<Rightarrow> Inl e
      | Inr c' \<Rightarrow> (case map_columns vrs cs of Inl e \<Rightarrow> Inl e | Inr cs' \<Rightarrow> Inr (c' # cs')))"
| "map_columns _ _ = Inr []"

text \<open>
  The state of a \<open>PRIMEDataset\<close>: the columns of \<open>_tf_dataset\<close> (all 32-bit integers but
  \<open>score\<close>), \<open>_segment_lengths\<close> of the active keys, \<open>_infeasible_np\<close> and \<open>_top\<close>.
\<close>

record prime_dataset =
  tf_params :: "nat list list"
  segment_lengths :: "nat list"
  tf_runtime :: "int list"
  tf_area :: "int list"
  tf_infeasible :: "int list"
  tf_score :: "real list"
  infeasible_np :: "real list"
  top :: nat

text \<open>
  \<open>_convert_to_tf_dataset\<close> (prime.py 941-987), given the value ranges of the active
  keys: every column is cast to 32-bit integers (prime.py 958-967), the columns of the
  parameters are then mapped to dense indices.
\<close>

definition convert_to_tf_dataset :: "int list list \<Rightarrow> raw_record list \<Rightarrow> py_error + prime_dataset" where
  "convert_to_tf_dataset value_ranges data_dict =
     (let param_cols = map (\<lambda>key. map (\<lambda>p. cast_int32 (r_param p key)) data_dict)
                         active_training_keys;
          area = map (\<lambda>p. cast_int32 (r_area p)) data_dict;
          runtime = map (\<lambda>p. cast_int32 (r_runtime p)) data_dict;
          infeasible = map (\<lambda>p. narrow_int32 (r_infeasible p)) data_dict
      in case map_columns value_ranges param_cols of
           Inl e \<Rightarrow> Inl e
         | Inr mapped \<Rightarrow>
             Inr \<lparr>tf_params = mapped,
                  segment_lengths = map length value_ranges,
                  tf_runtime = runtime,
                  tf_area = area,
                  tf_infeasible = infeasible,
                  tf_score = [],
                  infeasible_np = map real_of_int infeasible,
                  top = length infeasible\<rparr>)"

text \<open>
  \<open>get_score_function\<close> (prime.py 922-939): \<open>scores = -runtime\<close> on the stored
  32-bit column, written to \<open>_tf_dataset['score']\<close> as floats. \<open>scores.max()\<close> raises
  \<open>ValueError\<close> on an empty column.
\<close>

definition get_score_function :: "prime_dataset \<Rightarrow> py_error + prime_dataset \<times> real list" where
  "get_score_function ds =
     (let scores = map (\<lambda>r. real_of_int (narrow_int32 (- r))) (tf_runtime ds)
      in if scores = [] then Inl ValueError else Inr (ds\<lparr>tf_score := scores\<rparr>, scores))"

text \<open>\<open>PRIMEDataset(config, data_dict)\<close> with a record source: \<open>_setup_dataset\<close>
  (prime.py 905-911).\<close>

definition PRIMEDataset :: "config \<Rightarrow> raw_record list \<Rightarrow> py_error + prime_dataset" where
  "PRIMEDataset cfg data_dict =
     (case load_or_refresh_config cfg of
        Inl e \<Rightarrow> Inl e
      | Inr value_ranges \<Rightarrow>
          (case convert_to_tf_dataset value_ranges data_dict of
             Inl e \<Rightarrow> Inl e
           | Inr ds \<Rightarrow>
               (case get_score_function ds of
                  Inl e \<Rightarrow> Inl e
                | Inr (ds', scores) \<Rightarrow> Inr ds')))"

subsection \<open>Feasibility probabilities\<close>

text \<open>
  A float that numpy's division returns: dividing by zero raises nothing, it gives an
  infinity, or NaN for \<open>0 / 0\<close> (with a warning).
\<close>

datatype npfloat = Finite real | PosInf | NegInf | NaN

definition np_divide :: "real \<Rightarrow> real \<Rightarrow> npfloat" where
  "np_divide x y =
     (if y \<noteq> 0 then Finite (x / y)
      else if x = 0 then NaN else if 0 < x then PosInf else NegInf)"

text \<open>
  \<open>get_feasible_probs\<close> (prime.py 1057-1076); \<open>feasible_vec\<close> is its vector
  \<open>feasible = 1.0 - self._infeasible_np\<close>. With \<open>add_area_constraints\<close> the
  comparison \<open>self._tf_dataset['area'] <= AREA_THRESHOLD\<close> (prime.py 1066-1067) has the
  stored 32-bit integer column on its left and the float \<open>27.0\<close> on its right; the tensor
  library refuses to convert the float to an integer tensor and raises \<open>TypeError\<close>, so
  the clipping after it (prime.py 1068-1069) is never reached.
\<close>

definition feasible_vec :: "prime_dataset \<Rightarrow> real list" where
  "feasible_vec ds = map (\<lambda>x. 1 - x) (infeasible_np ds)"

definition get_feasible_probs ::
  "prime_dataset \<Rightarrow> bool \<Rightarrow> py_error + npfloat list \<times> npfloat list" where
  "get_feasible_probs ds add_area_constraints =
     (let feasible = feasible_vec ds
      in if add_area_constraints then Inl TypeError
         else (let probs = map (\<lambda>f. np_divide f (sum_list feasible)) feasible;
                   infeasible_probs =
                     map (\<lambda>f. np_divide (1 - f) (sum_list (map (\<lambda>f. 1 - f) feasible)))
                       feasible
               in Inr (probs, infeasible_probs)))"

subsection \<open>Sampling\<close>

text \<open>
  The random generator is a stream of uniform samples of \<open>[0, 1)\<close>; drawing \<open>n\<close> of
  them advances it by \<open>n\<close>.
\<close>

type_synonym rng = "nat \<Rightarrow> real"

definition finite_vals :: "npfloat list \<Rightarrow> real list option" where
  "finite_vals p =
     (if \<forall>x \<in> set p. case x of Finite _ \<Rightarrow> True | _ \<Rightarrow> False
      then Some (map (\<lambda>x. case x of Finite r \<Rightarrow> r | _ \<Rightarrow> 0) p) else None)"

fun cumsum :: "real \<Rightarrow> real list \<Rightarrow> real list" where
  "cumsum acc [] = []"
| "cumsum acc (x # xs) = (acc + x) # cumsum (acc + x) xs"

definition searchsorted_right :: "real list \<Rightarrow> real \<Rightarrow> nat" where
  "searchsorted_right cdf u = length (takeWhile (\<lambda>c. c \<le> u) cdf)"

text \<open>The tolerance of \<open>choice\<close> on the sum of 32-bit probabilities: the square root of the
  machine epsilon \<open>2^-23\<close>.\<close>

definition choice_atol :: real where
  "choice_atol = sqrt (1 / 2 ^ 23)"

text \<open>
  \<open>np.random.choice(np.arange(0, n), size=sz, p=p)\<close>: numpy rejects an empty
  population, a \<open>p\<close> of another length, probabilities whose sum is NaN, a negative
  probability and a sum that is not 1, each with \<open>ValueError\<close> (a vector with an
  infinite entry fails one of these tests); then it samples by inverting the cumulative
  distribution.
\<close>

definition np_random_choice ::
  "nat \<Rightarrow> nat \<Rightarrow> npfloat list \<Rightarrow> rng \<Rightarrow> py_error + nat list \<times> rng" where
  "np_random_choice n sz p g =
     (if n = 0 \<and> sz \<noteq> 0 then Inl ValueError
      else if length p \<noteq> n then Inl ValueError
      else case finite_vals p of
        None \<Rightarrow> Inl ValueError
      | Some ps \<Rightarrow>
          if \<exists>x \<in> set ps. x < 0 then Inl ValueError
          else if \<bar>sum_list ps - 1\<bar> > choice_atol then Inl ValueError
          else (let cdf = map (\<lambda>c. c / sum_list ps) (cumsum 0 ps)
                in Inr (map (\<lambda>k. searchsorted_right cdf (g k)) [0..<sz],
                        \<lambda>k. g (k + sz))))"

text \<open>\<open>np.random.randint(1, high, sz)\<close>: \<open>ValueError\<close> unless \<open>1 < high\<close> or nothing is
  drawn; the draws lie in \<open>[1, high)\<close>.\<close>

definition np_random_randint :: "nat \<Rightarrow> nat \<Rightarrow> rng \<Rightarrow> py_error + nat list \<times> rng" where
  "np_random_randint high sz g =
     (if sz = 0 then Inr ([], g)
      else if high \<le> 1 then Inl ValueError
      else Inr (map (\<lambda>k. 1 + nat \<lfloor>g k * real (high - 1)\<rfloor>) [0..<sz], \<lambda>k. g (k + sz)))"

text \<open>\<open>tf.one_hot\<close>: an index outside the depth gives the zero vector.\<close>

definition one_hot :: "nat \<Rightarrow> nat \<Rightarrow> real list" where
  "one_hot depth i = map (\<lambda>j. if j = i then 1 else 0) [0..<depth]"

text \<open>\<open>_get_batch\<close> (prime.py 1088-1103): the one-hot vectors of the parameters,
  concatenated, and the scores. \<open>tf.gather\<close> rejects an index outside the column.\<close>

definition get_batch :: "prime_dataset \<Rightarrow> nat list \<Rightarrow> py_error + real list list \<times> real list" where
  "get_batch ds indices =
     (if \<exists>i \<in> set indices. \<not> (i < top ds \<and> i < length (tf_score ds)) then Inl IndexError
      else Inr (map (\<lambda>i. concat (map2 (\<lambda>col depth. one_hot depth (col ! i))
                                    (tf_params ds) (segment_lengths ds))) indices,
                map (\<lambda>i. tf_score ds ! i) indices))"

subsection \<open>The hardware optimization problem\<close>

text \<open>\<open>params_dict\<close>: the three keys that \<open>HardwareOptProblem.__init__\<close> looks for;
  \<open>None\<close> is an absent key.\<close>

record params_dict =
  pd_batch_size :: "nat option"
  pd_batch_type :: "string option"
  pd_add_area_constraints :: "bool option"

text \<open>
  The attributes of a \<open>HardwareOptProblem\<close>. \<open>batch_size\<close> and \<open>u_batch_size\<close> are the
  two attributes \<open>self.batch_size\<close> and \<open>self._batch_size\<close>; \<open>u_batch_size = None\<close> is
  an object that has no attribute \<open>_batch_size\<close>.
\<close>

record hardware_opt_problem =
  batch_size :: nat
  u_batch_size :: "nat option"
  u_batch_type :: string
  u_add_area_constraints :: bool
  dataset :: prime_dataset
  feasible_probs :: "npfloat list"
  infeasible_probs :: "npfloat list"

text \<open>\<open>HardwareOptProblem.__init__\<close> (prime.py 781-824). \<open>params_dict\<close> defaults to
  \<open>None\<close>, on which \<open>'batch_size' in params_dict\<close> raises \<open>TypeError\<close>.\<close>

definition HardwareOptProblem ::
  "config \<Rightarrow> raw_record list \<Rightarrow> params_dict option \<Rightarrow> py_error + hardware_opt_problem" where
  "HardwareOptProblem cfg data_file params =
     (case params of
        None \<Rightarrow> Inl TypeError
      | Some pd \<Rightarrow>
          (case PRIMEDataset cfg data_file of
             Inl e \<Rightarrow> Inl e
           | Inr ds \<Rightarrow>
               (let add_area =
                      (case pd_add_area_constraints pd of None \<Rightarrow> False | Some b \<Rightarrow> b)
                in case get_feasible_probs ds add_area of
                     Inl e \<Rightarrow> Inl e
                   | Inr (probs, iprobs) \<Rightarrow>
                       Inr \<lparr>batch_size = 256,
                            u_batch_size = pd_batch_size pd,
                            u_batch_type =
                              (case pd_batch_type pd of None \<Rightarrow> ''valid'' | Some t \<Rightarrow> t),
                            u_add_area_constraints = add_area,
                            dataset = ds,
                            feasible_probs = probs,
                            infeasible_probs = iprobs\<rparr>)))"

text \<open>\<open>get_all_batch\<close> (prime.py 826-834).\<close>

definition get_all_batch :: "hardware_opt_problem \<Rightarrow> rng \<Rightarrow> py_error + data_batch \<times> rng" where
  "get_all_batch prob g =
     (case u_batch_size prob of
        None \<Rightarrow> Inl (AttributeError ''_batch_size'')
      | Some sz \<Rightarrow>
     (case np_random_randint (top (dataset prob)) sz g of
        Inl e \<Rightarrow> Inl e
      | Inr (indices, g') \<Rightarrow>
     (case get_batch (dataset prob) indices of
        Inl e \<Rightarrow> Inl e
      | Inr (batch_x, batch_y) \<Rightarrow>
          Inr (\<lparr>design = batch_x, objective = batch_y,
                invalid_design = None, invalid_objective = None\<rparr>, g'))))"

text \<open>\<open>get_valid_only_batch\<close> (prime.py 836-844).\<close>

definition get_valid_only_batch :: "hardware_opt_problem \<Rightarrow> rng \<Rightarrow> py_error + data_batch \<times> rng" where
  "get_valid_only_batch prob g =
     (case u_batch_size prob of
        None \<Rightarrow> Inl (AttributeError ''_batch_size'')
      | Some sz \<Rightarrow>
     (case np_random_choice (top (dataset prob)) sz (feasible_probs prob) g of
        Inl e \<Rightarrow> Inl e
      | Inr (indices, g') \<Rightarrow>
     (case get_batch (dataset prob) indices of
        Inl e \<Rightarrow> Inl e
      | Inr (batch_x, batch_y) \<Rightarrow>
          Inr (\<lparr>design = batch_x, objective = batch_y,
                invalid_design = None, invalid_objective = None\<rparr>, g'))))"

text \<open>\<open>get_mixed_batch\<close> (prime.py 855-871).\<close>

definition get_mixed_batch :: "hardware_opt_problem \<Rightarrow> rng \<Rightarrow> py_error + data_batch \<times> rng" where
  "get_mixed_batch prob g =
     (case u_batch_size prob of
        None \<Rightarrow> Inl (AttributeError ''_batch_size'')
      | Some sz \<Rightarrow>
     (case np_random_choice (top (dataset prob)) sz (feasible_probs prob) g of
        Inl e \<Rightarrow> Inl e
      | Inr (valid_indices, g') \<Rightarrow>
     (case np_random_choice (top (dataset prob)) sz (infeasible_probs prob) g' of
        Inl e \<Rightarrow> Inl e
      | Inr (invalid_indices, g'') \<Rightarrow>
     (case get_batch (dataset prob) valid_indices of
        Inl e \<Rightarrow> Inl e
      | Inr (batch_x, batch_y) \<Rightarrow>
     (case get_batch (dataset prob) invalid_indices of
        Inl e \<Rightarrow> Inl e
      | Inr (batch_x_in, batch_y_in) \<Rightarrow>
          Inr (\<lparr>design = batch_x, objective = batch_y,
                invalid_design = Some batch_x_in, invalid_objective = Some batch_y_in\<rparr>,
               g''))))))"

text \<open>\<open>get_training_batch\<close>, as \<open>__init__\<close> binds it (prime.py 817-824).\<close>

definition get_training_batch :: "hardware_opt_problem \<Rightarrow> rng \<Rightarrow> py_error + data_batch \<times> rng" where
  "get_training_batch prob g =
     (if u_batch_type prob = ''valid'' then get_valid_only_batch prob g
      else if u_batch_type prob = ''mixed'' then get_mixed_batch prob g
      else get_all_batch prob g)"

section \<open>Concrete models and inputs\<close>

text \<open>A model with two experts and a constant voting network; the first expert doubles
  its output in training mode.\<close>

definition two_vote_model :: prime_model where
  "two_vote_model =
     \<lparr>base_network = (\<lambda>x training. x),
      all_networks = [\<lambda>e training. if training then 2 * sum_list e else sum_list e,
                      \<lambda>e training. 3],
      voting_network = (\<lambda>e training. [0, 0]),
      num_votes = 2,
      cql_alpha_value = 1 / 10,
      infeasible_alpha = 1 / 20,
      opt_lr = 1,
      num_gradient_infer_steps = 0,
      negative_sampler = None,
      input_grad = (\<lambda>x. map (\<lambda>_. 1 / 2) x)\<rparr>"

text \<open>A model with one expert, whose prediction is half the squared norm of the input;
  the gradient of that prediction at \<open>x\<close> is \<open>x\<close> itself. One step of gradient ascent
  with learning rate 1.\<close>

definition quadratic_model :: prime_model where
  "quadratic_model =
     \<lparr>base_network = (\<lambda>x training. x),
      all_networks = [\<lambda>e training. sum_list (map (\<lambda>v. v\<^sup>2) e) / 2],
      voting_network = (\<lambda>e training. [0]),
      num_votes = 1,
      cql_alpha_value = 1,
      infeasible_alpha = 1,
      opt_lr = 1,
      num_gradient_infer_steps = 1,
      negative_sampler = None,
      input_grad = (\<lambda>x. x)\<rparr>"

text \<open>A batch of two different examples.\<close>

definition two_example_batch :: data_batch where
  "two_example_batch =
     \<lparr>design = [[1], [2]], objective = [0, 0], invalid_design = None, invalid_objective = None\<rparr>"

text \<open>
  The design that \<open>_get_batch\<close> builds for a record all of whose ten parameters have
  the dense index \<open>i\<close>, in a configuration of three values per field: ten one-hot
  vectors of depth 3, concatenated.
\<close>

definition design_row :: "nat \<Rightarrow> real list" where
  "design_row i = concat (replicate 10 (one_hot 3 i))"

text \<open>
  A model with two experts on such designs: the first expert is linear in the one-hot
  vector of the first field, with weights large enough for predictions beyond \<open>4000\<close>
  and below \<open>-4000\<close>, and doubles its output in training mode. No gradient step is
  taken.
\<close>

definition linear_model :: prime_model where
  "linear_model =
     \<lparr>base_network = (\<lambda>x training. x),
      all_networks =
        [\<lambda>e training. (if training then 2 else 1) * sum_list (map2 (*) [3, 9000, - 9000] e),
         \<lambda>e training. 3],
      voting_network = (\<lambda>e training. [0, 0]),
      num_votes = 2,
      cql_alpha_value = 1 / 10,
      infeasible_alpha = 1 / 20,
      opt_lr = 1,
      num_gradient_infer_steps = 0,
      negative_sampler = None,
      input_grad = (\<lambda>x. [3 / 2, 4500, - 4500] @ replicate 27 0)\<rparr>"

text \<open>Batches of three examples, without and with the \<open>invalid/...\<close> keys, and a batch of
  one example.\<close>

definition valid_only_batch :: data_batch where
  "valid_only_batch =
     \<lparr>design = [design_row 0, design_row 1, design_row 2], objective = [3, 4500, - 4500],
      invalid_design = None, invalid_objective = None\<rparr>"

definition mixed_batch :: data_batch where
  "mixed_batch =
     \<lparr>design = [design_row 0, design_row 1, design_row 2], objective = [3, 4500, - 4500],
      invalid_design = Some [design_row 2, design_row 2, design_row 0],
      invalid_objective = Some [- 4500, - 4500, 0]\<rparr>"

definition one_example_batch :: data_batch where
  "one_example_batch =
     \<lparr>design = [design_row 0], objective = [3],
      invalid_design = Some [design_row 2], invalid_objective = Some [- 4500]\<rparr>"

text \<open>The entropy of a distribution, \<open>- sum_i p_i log p_i\<close>.\<close>

definition entropy :: "real list \<Rightarrow> real" where
  "entropy ps = - sum_list (map (\<lambda>p. p * ln p) ps)"

text \<open>
  The update that gradient ascent on every example's own input makes: each row moves by
  \<open>opt_lr\<close> times the gradient of its own prediction.
\<close>

definition own_gradient_step :: "prime_model \<Rightarrow> real list list \<Rightarrow> real list list" where
  "own_gradient_step m log_probs =
     map (\<lambda>row. map2 (+) row (map (\<lambda>g. opt_lr m * g) (input_grad m row))) log_probs"

text \<open>
  A field configuration with the ten active fields, each of the values \<open>1,2,4\<close>, and one
  with a single field. Three records: the first is feasible, the second is infeasible, the
  third is flagged feasible but lies above the area threshold; two runtimes are not whole
  numbers. \<open>example_dataset\<close> is what loading them gives.
\<close>

definition example_config :: config where
  "example_config =
     [(''param_1'', [1, 2, 4]), (''param_2'', [1, 2, 4]), (''param_3'', [1, 2, 4]),
      (''param_7'', [1, 2, 4]), (''param_8'', [1, 2, 4]), (''param_9'', [1, 2, 4]),
      (''param_6'', [1, 2, 4]), (''param_5'', [1, 2, 4]), (''param_4'', [1, 2, 4]),
      (''param_10'', [1, 2, 4])]"

definition one_field_config :: config where
  "one_field_config = [(''param_1'', [1, 2, 4])]"

definition example_records :: "raw_record list" where
  "example_records =
     [\<lparr>r_param = (\<lambda>key. 1), r_runtime = 5 / 2, r_area = 10, r_infeasible = 0\<rparr>,
      \<lparr>r_param = (\<lambda>key. 2), r_runtime = 4, r_area = 50, r_infeasible = 1\<rparr>,
      \<lparr>r_param = (\<lambda>key. 4), r_runtime = 7 / 2, r_area = 30, r_infeasible = 0\<rparr>]"

definition example_dataset :: prime_dataset where
  "example_dataset =
     \<lparr>tf_params = [[0, 1, 2], [0, 1, 2], [0, 1, 2], [0, 1, 2], [0, 1, 2],
                   [0, 1, 2], [0, 1, 2], [0, 1, 2], [0, 1, 2], [0, 1, 2]],
      segment_lengths = [3, 3, 3, 3, 3, 3, 3, 3, 3, 3],
      tf_runtime = [2, 4, 3],
      tf_area = [10, 50, 30], tf_infeasible = [0, 1, 0], tf_score = [- 2, - 4, - 3],
      infeasible_np = [0, 1, 0], top = 3\<rparr>"



text \<open>The \<open>params_dict\<close> without any key, one with a batch size only, one for mixed
  batches, one that also asks for the area constraint; and the problems that
  \<open>HardwareOptProblem\<close> builds from them.\<close>

definition empty_params :: params_dict where
  "empty_params = \<lparr>pd_batch_size = None, pd_batch_type = None, pd_add_area_constraints = None\<rparr>"

definition batch_size_params :: params_dict where
  "batch_size_params = \<lparr>pd_batch_size = Some 2, pd_batch_type = None, pd_add_area_constraints = None\<rparr>"


definition area_params :: params_dict where
  "area_params =
     \<lparr>pd_batch_size = Some 2, pd_batch_type = Some ''mixed'',
      pd_add_area_constraints = Some True\<rparr>"

definition example_problem :: hardware_opt_problem where
  "example_problem =
     \<lparr>batch_size = 256, u_batch_size = Some 2, u_batch_type = ''valid'',
      u_add_area_constraints = False, dataset = example_dataset,
      feasible_probs = [Finite (1 / 2), Finite 0, Finite (1 / 2)],
      infeasible_probs = [Finite 0, Finite 1, Finite 0]\<rparr>"



text \<open>
  The feasibility partition in the words of the specification, on the records of the
  source: a record is feasible when it is not infeasible and, if the area constraint is
  on, its area is at most the threshold. Each of the two probability vectors is uniform
  on its partition and zero outside it.
\<close>

definition record_feasible :: "raw_record \<Rightarrow> bool \<Rightarrow> bool" where
  "record_feasible p add_area_constraints \<longleftrightarrow>
     r_infeasible p = 0 \<and>
     (if add_area_constraints then r_area p \<le> AREA_THRESHOLD else True)"

definition partition_probs :: "bool list \<Rightarrow> real list" where
  "partition_probs member =
     map (\<lambda>b. if b then 1 / real (length (filter id member)) else 0) member"

definition spec_feasible_probs :: "raw_record list \<Rightarrow> bool \<Rightarrow> real list \<times> real list" where
  "spec_feasible_probs data_dict add_area_constraints =
     (partition_probs (map (\<lambda>p. record_feasible p add_area_constraints) data_dict),
      partition_probs (map (\<lambda>p. \<not> record_feasible p add_area_constraints) data_dict))"

section \<open>Properties of the forward pass\<close>

lemma sum_list_map_exp_pos: "xs \<noteq> [] \<Longrightarrow> 0 < sum_list (map exp (xs::real list))"
proof (cases xs)
  case Nil
  assume "xs \<noteq> []"
  with Nil show ?thesis by simp
next
  case (Cons a as)
  have "0 \<le> sum_list (map exp as)" by (rule sum_list_nonneg) auto
  then have "0 < exp a + sum_list (map exp as)" by (intro add_pos_nonneg) simp_all
  with Cons show ?thesis by simp
qed







lemma wf_two_vote_model: "wf_model two_vote_model"
  by (simp add: wf_model_def two_vote_model_def)

lemma vote_prob_two: "vote_prob two_vote_model x training = [1 / 2, 1 / 2]"
  by (simp add: vote_prob_def vote_logit_def softmax_def two_vote_model_def)

lemma two_vote_model_sel:
  "num_votes two_vote_model = 2"
  "base_network two_vote_model = (\<lambda>x training. x)"
  "all_networks two_vote_model =
     [\<lambda>e training. if training then 2 * sum_list e else sum_list e, \<lambda>e training. 3]"
  "voting_network two_vote_model = (\<lambda>e training. [0, 0])"
  "cql_alpha_value two_vote_model = 1 / 10"
  "infeasible_alpha two_vote_model = 1 / 20"
  "num_gradient_infer_steps two_vote_model = 0"
  "negative_sampler two_vote_model = None"
  by (simp_all add: two_vote_model_def)



lemma fwd_model_pred_two:
  "fwd_model_pred two_vote_model x training =
     (if training then 2 * sum_list x else sum_list x) / 2 + 3 / 2"
  by (simp add: fwd_model_pred_def vote_prob_two all_outputs_def two_vote_model_sel
      upt_rec numeral_2_eq_2)

lemma vote_entropy_two: "vote_entropy two_vote_model x training = - ln 2"
  by (simp add: vote_entropy_def vote_prob_two vote_logit_def log_softmax_def two_vote_model_sel)

lemma call_with_logging_two_single:
  "call_with_logging two_vote_model [x] training =
     ([(if training then 2 * sum_list x else sum_list x) / 2 + 3 / 2], - ln 2)"
  by (simp add: call_with_logging_def fwd_model_pred_two vote_entropy_two reduce_mean_def)

lemma negatives_forward_two:
  "negatives_forward two_vote_model b training = Inr (call two_vote_model (design b) True)"
  by (simp add: negatives_forward_def infer_negatives_def two_vote_model_sel)

text \<open>The forward pass of \<open>linear_model\<close>.\<close>

lemma linear_model_sel:
  "num_votes linear_model = 2"
  "base_network linear_model = (\<lambda>x training. x)"
  "all_networks linear_model =
     [\<lambda>e training. (if training then 2 else 1) * sum_list (map2 (*) [3, 9000, - 9000] e),
      \<lambda>e training. 3]"
  "voting_network linear_model = (\<lambda>e training. [0, 0])"
  "cql_alpha_value linear_model = 1 / 10"
  "infeasible_alpha linear_model = 1 / 20"
  "num_gradient_infer_steps linear_model = 0"
  "negative_sampler linear_model = None"
  by (simp_all add: linear_model_def)

lemma vote_prob_linear: "vote_prob linear_model x training = [1 / 2, 1 / 2]"
  by (simp add: vote_prob_def vote_logit_def softmax_def linear_model_sel)

lemma fwd_model_pred_linear:
  "fwd_model_pred linear_model x training =
     ((if training then 2 else 1) * sum_list (map2 (*) [3, 9000, - 9000] x) + 3) / 2"
  by (simp add: fwd_model_pred_def vote_prob_linear all_outputs_def linear_model_sel
      upt_rec numeral_2_eq_2 add_divide_distrib)

lemma vote_entropy_linear: "vote_entropy linear_model x training = - ln 2"
  by (simp add: vote_entropy_def vote_prob_linear vote_logit_def log_softmax_def linear_model_sel)

lemma one_hot_3:
  "one_hot 3 0 = [1, 0, 0]" "one_hot 3 1 = [0, 1, 0]" "one_hot 3 2 = [0, 0, 1]"
  by (simp_all add: one_hot_def upt_rec numeral_3_eq_3)

lemma first_expert_design_row:
  "sum_list (map2 (*) [3, 9000, - 9000] (design_row 0)) = 3"
  "sum_list (map2 (*) [3, 9000, - 9000] (design_row 1)) = 9000"
  "sum_list (map2 (*) [3, 9000, - 9000] (design_row 2)) = - 9000"
  "sum_list (map2 (*) [3, 9000, - 9000] (design_row (Suc 0))) = 9000"
  by (simp_all add: design_row_def one_hot_def upt_rec eval_nat_numeral)

lemma call_linear:
  "call linear_model [design_row 0, design_row 1, design_row 2] True = [9 / 2, 18003 / 2, - (17997 / 2)]"
  "call linear_model [design_row 0, design_row 1, design_row 2] False = [3, 9003 / 2, - (8997 / 2)]"
  "call linear_model [design_row 2, design_row 2, design_row 0] False = [- (8997 / 2), - (8997 / 2), 3]"
  "call linear_model [design_row 0] True = [9 / 2]"
  by (simp_all add: call_def call_with_logging_def fwd_model_pred_linear first_expert_design_row)

lemmas call_linear_Suc = call_linear [unfolded One_nat_def]

lemma call_with_logging_linear:
  "call_with_logging linear_model xs training =
     (call linear_model xs training, reduce_mean (map (\<lambda>x. - ln 2) xs))"
  by (simp add: call_def call_with_logging_def vote_entropy_linear)

lemma negatives_forward_linear:
  "negatives_forward linear_model b training = Inr (call linear_model (design b) True)"
  by (simp add: negatives_forward_def infer_negatives_def linear_model_sel)

section \<open>Properties of the training objective\<close>

lemma ranking_loss_returns:
  assumes "length inp \<noteq> 1" and "length target \<noteq> 1"
  obtains v where "ranking_loss inp target = Inr v"
  using assms by (simp add: ranking_loss_def Let_def)

lemma ranking_loss_one_example:
  "length inp = 1 \<Longrightarrow> ranking_loss inp target = Inl InvalidArgumentError"
  by (simp add: ranking_loss_def)

lemma clip_by_value_bounds:
  "lo \<le> hi \<Longrightarrow> lo \<le> clip_by_value t lo hi \<and> clip_by_value t lo hi \<le> hi"
  by (auto simp: clip_by_value_def)

lemma valid_losses_fields:
  assumes "valid_losses m b lt tr rpw np0 = Inr (ld, loss)"
  shows "ld_cql_loss ld = clip_by_value (reduce_mean (map (\<lambda>p. clip_by_value p (- 4000) 4000) np0))
            (- 4000) 1000000"
    and "loss = ld_mse_loss ld + rpw * ld_avg_ranking_train_loss ld + cql_alpha_value m * ld_cql_loss ld"
    and "ld_y_value_infeasible ld = None"
    and "ld_negatives_pred ld = reduce_mean (map (\<lambda>p. clip_by_value p (- 4000) 4000) np0)"
    and "ld_model_pred_average ld = reduce_mean (call m (design b) tr)"
    and "length (call m (design b) tr) \<noteq> 1"
  using assms
  by (auto simp: valid_losses_def Let_def call_def ranking_loss_def
      split: prod.splits sum.splits if_splits)

lemma invalid_losses_fields:
  assumes "invalid_losses m b tr (ld0, loss0) = Inr (ld, loss)"
  shows "ld_cql_loss ld = ld_cql_loss ld0"
    and "ld_mse_loss ld = ld_mse_loss ld0"
    and "ld_avg_ranking_train_loss ld = ld_avg_ranking_train_loss ld0"
    and "ld_negatives_pred ld = ld_negatives_pred ld0"
    and "ld_model_pred_average ld = ld_model_pred_average ld0"
    and "\<exists>inv. invalid_design b = Some inv \<and>
           ld_y_value_infeasible ld =
             Some (clip_by_value (reduce_mean (call m inv tr)) (- 1000) 1000000) \<and>
           loss = loss0 + infeasible_alpha m *
                  clip_by_value (reduce_mean (call m inv tr)) (- 1000) 1000000"
  using assms
  by (auto simp: invalid_losses_def Let_def call_def split: prod.splits option.splits)

lemma compute_loss_cases:
  assumes "compute_loss m b lt tr rpw ibt = Inr (ld, loss)"
  obtains np0 ld0 loss0 where "negatives_forward m b tr = Inr np0"
    and "valid_losses m b lt tr rpw np0 = Inr (ld0, loss0)"
    and "ibt = ValidLiteral \<and> ld = ld0 \<and> loss = loss0 \<or>
         ibt \<noteq> ValidLiteral \<and> invalid_losses m b tr (ld0, loss0) = Inr (ld, loss)"
  using assms
  by (auto simp: compute_loss_def split: sum.splits if_splits)

text \<open>On a batch of one example \<open>compute_loss\<close> raises in \<open>ranking_loss\<close>, whatever the
  other arguments.\<close>

lemma compute_loss_one_example:
  assumes "length (design b) = 1" and "negatives_forward m b tr = Inr np0"
  shows "compute_loss m b lt tr rpw ibt = Inl InvalidArgumentError"
  using assms
  by (simp add: compute_loss_def valid_losses_def call_with_logging_def ranking_loss_def Let_def)

lemma compute_loss_one_example_batch:
  "compute_loss linear_model one_example_batch ''mse'' True 0 NoneArg = Inl InvalidArgumentError"
  by (rule compute_loss_one_example [where ?np0.0 = "[9 / 2]"])
     (simp_all add: one_example_batch_def negatives_forward_linear call_linear call_linear_Suc)

text \<open>The mean of the clipped predictions lies in \<open>[-4000, 4000]\<close>, so the second clip
  never changes it.\<close>

lemma sum_list_in_range:
  "\<forall>x \<in> set xs. a \<le> x \<and> x \<le> b \<Longrightarrow>
     real (length xs) * a \<le> sum_list xs \<and> sum_list xs \<le> real (length xs) * (b::real)"
  by (induction xs) (auto simp: algebra_simps)

lemma reduce_mean_in_range:
  assumes "xs \<noteq> []" and "\<forall>x \<in> set xs. a \<le> x \<and> x \<le> b"
  shows "a \<le> reduce_mean xs \<and> reduce_mean xs \<le> b"
proof -
  have n: "0 < real (length xs)" using assms(1) by simp
  from sum_list_in_range [OF assms(2)] show ?thesis
    unfolding reduce_mean_def using n
    by (simp add: pos_le_divide_eq pos_divide_le_eq mult.commute)
qed

lemma cql_loss_second_clip_is_identity:
  assumes "negatives_pred0 \<noteq> []"
  shows "clip_by_value (reduce_mean (map (\<lambda>p. clip_by_value p (- 4000) 4000) negatives_pred0))
           (- 4000) 1000000
         = reduce_mean (map (\<lambda>p. clip_by_value p (- 4000) 4000) negatives_pred0)"
proof -
  let ?xs = "map (\<lambda>p. clip_by_value p (- 4000) 4000) negatives_pred0"
  have "?xs \<noteq> []" using assms by simp
  moreover have "\<forall>x \<in> set ?xs. - 4000 \<le> x \<and> x \<le> 4000"
    by (auto simp: clip_by_value_def)
  ultimately have "- 4000 \<le> reduce_mean ?xs \<and> reduce_mean ?xs \<le> 4000"
    by (rule reduce_mean_in_range)
  then show ?thesis by (simp add: clip_by_value_def)
qed

lemma compute_loss_linear_mixed:
  "\<exists>ld. compute_loss linear_model mixed_batch ''mse'' False 0 NoneArg = Inr (ld, - (967 / 20)) \<and>
     ld_cql_loss ld = 3 / 2 \<and> ld_negatives_pred ld = 3 / 2 \<and> ld_model_pred_average ld = 2 \<and>
     ld_y_value_infeasible ld = Some (- 1000) \<and> ld_mse_loss ld = 3 / 2 \<and>
     ld_avg_ranking_train_loss ld = 0"
proof -
  obtain v where v: "ranking_loss [3, 9003 / 2, - (8997 / 2)] [3, 4500, - 4500] = Inr v"
    by (rule ranking_loss_returns [of "[3, 9003 / 2, - (8997 / 2)]" "[3, 4500, - 4500]"]) simp_all
  show ?thesis
    by (simp add: compute_loss_def negatives_forward_linear valid_losses_def invalid_losses_def
        mixed_batch_def call_with_logging_linear call_linear call_linear_Suc v clip_by_value_def reduce_mean_def
        weighted_mse_loss_def weighted_approx_loss_def linear_model_sel Let_def power2_eq_square)
qed

text \<open>
  C1: whenever \<open>compute_loss\<close> returns on a non-empty batch of negatives, the
  predictions on the negatives were clipped elementwise to \<open>[-4000, 4000]\<close>; \<open>cql_loss\<close>
  is the mean of the clipped predictions, clipped to \<open>[-4000, 1e6]\<close>; and the training
  loss is the MSE loss plus the weighted ranking loss plus \<open>cql_alpha_value * cql_loss\<close>
  (plus the term of the invalid batch when that branch ran).
\<close>

theorem compute_loss_cql_loss_clipped:
  assumes "compute_loss m data_batch loss_type training ranking_penalty_weight inp_batch_type
             = Inr (ld, train_loss)"
    and "negatives_forward m data_batch training = Inr negatives_pred0"
    and "negatives_pred0 \<noteq> []"
  shows "(\<forall>p \<in> set (map (\<lambda>p. clip_by_value p (- 4000) 4000) negatives_pred0).
         - 4000 \<le> p \<and> p \<le> 4000) \<and>
     ld_cql_loss ld =
       clip_by_value (reduce_mean (map (\<lambda>p. clip_by_value p (- 4000) 4000) negatives_pred0))
         (- 4000) 1000000 \<and>
     - 4000 \<le> ld_cql_loss ld \<and> ld_cql_loss ld \<le> 1000000 \<and>
     train_loss = ld_mse_loss ld + ranking_penalty_weight * ld_avg_ranking_train_loss ld
        + cql_alpha_value m * ld_cql_loss ld
        + (case ld_y_value_infeasible ld of None \<Rightarrow> 0 | Some y \<Rightarrow> infeasible_alpha m * y)"
proof -
  from assms(1) obtain np0 ld0 loss0 where nf: "negatives_forward m data_batch training = Inr np0"
    and vl: "valid_losses m data_batch loss_type training ranking_penalty_weight np0
               = Inr (ld0, loss0)"
    and br: "inp_batch_type = ValidLiteral \<and> ld = ld0 \<and> train_loss = loss0 \<or>
         inp_batch_type \<noteq> ValidLiteral \<and>
         invalid_losses m data_batch training (ld0, loss0) = Inr (ld, train_loss)"
    by (rule compute_loss_cases)
  from nf assms(2) have np0: "np0 = negatives_pred0" by simp
  note v = valid_losses_fields [OF vl]
  have b: "- 4000 \<le> clip_by_value t (- 4000) 4000 \<and> clip_by_value t (- 4000) 4000 \<le> 4000" for t
    by (rule clip_by_value_bounds) simp
  have c: "- 4000 \<le> clip_by_value t (- 4000) 1000000 \<and> clip_by_value t (- 4000) 1000000 \<le> 1000000" for t
    by (rule clip_by_value_bounds) simp
  from br show ?thesis
  proof
    assume "inp_batch_type = ValidLiteral \<and> ld = ld0 \<and> train_loss = loss0"
    with np0 v b c show ?thesis by auto
  next
    assume "inp_batch_type \<noteq> ValidLiteral \<and>
         invalid_losses m data_batch training (ld0, loss0) = Inr (ld, train_loss)"
    then have il: "invalid_losses m data_batch training (ld0, loss0) = Inr (ld, train_loss)" by simp
    note i = invalid_losses_fields [OF il]
    from i(6) obtain inv where y: "ld_y_value_infeasible ld =
             Some (clip_by_value (reduce_mean (call m inv training)) (- 1000) 1000000)"
      and t: "train_loss = loss0 + infeasible_alpha m *
                  clip_by_value (reduce_mean (call m inv training)) (- 1000) 1000000"
      by blast
    have "ld_cql_loss ld =
       clip_by_value (reduce_mean (map (\<lambda>p. clip_by_value p (- 4000) 4000) negatives_pred0))
         (- 4000) 1000000"
      using i(1) v(1) np0 by simp
    moreover have "train_loss = ld_mse_loss ld + ranking_penalty_weight * ld_avg_ranking_train_loss ld
        + cql_alpha_value m * ld_cql_loss ld
        + (case ld_y_value_infeasible ld of None \<Rightarrow> 0 | Some y \<Rightarrow> infeasible_alpha m * y)"
      using t y v(2) i(1,2,3) by simp
    ultimately show ?thesis using b c by auto
  qed
qed

theorem compute_loss_cql_loss_clipped_witness:
  "\<exists>ld. compute_loss linear_model mixed_batch ''mse'' False 0 NoneArg = Inr (ld, - (967 / 20)) \<and>
     negatives_forward linear_model mixed_batch False = Inr [9 / 2, 18003 / 2, - (17997 / 2)] \<and>
     map (\<lambda>p. clip_by_value p (- 4000) 4000) [9 / 2, 18003 / 2, - (17997 / 2)]
       = [9 / 2, 4000, - 4000] \<and>
     reduce_mean [9 / 2, 4000, - 4000] = 3 / 2 \<and>
     ld_cql_loss ld = clip_by_value (reduce_mean [9 / 2, 4000, - 4000]) (- 4000) 1000000 \<and>
     ld_cql_loss ld = 3 / 2 \<and>
     (- (967 / 20) :: real) = ld_mse_loss ld + 0 * ld_avg_ranking_train_loss ld
        + cql_alpha_value linear_model * ld_cql_loss ld
        + (case ld_y_value_infeasible ld of None \<Rightarrow> 0
           | Some y \<Rightarrow> infeasible_alpha linear_model * y)"
proof -
  from compute_loss_linear_mixed obtain ld where
    c: "compute_loss linear_model mixed_batch ''mse'' False 0 NoneArg = Inr (ld, - (967 / 20))"
    and l: "ld_cql_loss ld = 3 / 2" by blast
  have n: "negatives_forward linear_model mixed_batch False
             = Inr [9 / 2, 18003 / 2, - (17997 / 2)]"
    by (simp add: negatives_forward_linear mixed_batch_def call_linear call_linear_Suc)
  have e: "[9 / 2, 18003 / 2, - (17997 / 2) :: real] \<noteq> []" by simp
  have m: "map (\<lambda>p. clip_by_value p (- 4000) 4000) [9 / 2, 18003 / 2, - (17997 / 2)]
       = [9 / 2, 4000, - 4000]"
    by (simp add: clip_by_value_def)
  have r: "reduce_mean [9 / 2, 4000, - 4000] = 3 / 2"
    by (simp add: reduce_mean_def)
  note t = compute_loss_cql_loss_clipped [OF c n e]
  from t have h: "(- (967 / 20) :: real) = ld_mse_loss ld + 0 * ld_avg_ranking_train_loss ld
        + cql_alpha_value linear_model * ld_cql_loss ld
        + (case ld_y_value_infeasible ld of None \<Rightarrow> 0
           | Some y \<Rightarrow> infeasible_alpha linear_model * y)"
    by blast
  from t have k: "ld_cql_loss ld =
      clip_by_value (reduce_mean [9 / 2, 4000, - 4000]) (- 4000) 1000000"
    unfolding m by blast
  show ?thesis by (intro exI [of _ ld] conjI c n m r k l h)
qed

text \<open>
  C10: with the built-in generator (no external sampler), the forward pass on the
  negatives is \<open>call ... True\<close> whatever \<open>training\<close> the caller gave, while the passes
  on the valid batch and on the invalid batch use the caller's \<open>training\<close>. (The passes
  inside \<open>infer_negatives\<close> itself are fixed to \<open>training=False\<close>; they are what
  \<open>input_grad\<close> differentiates.)
\<close>

theorem compute_loss_negatives_always_training:
  assumes "negative_sampler m = None"
    and "compute_loss m data_batch loss_type training ranking_penalty_weight inp_batch_type
           = Inr (ld, train_loss)"
  shows "\<exists>negatives_batch. infer_negatives m data_batch = Inr negatives_batch \<and>
     ld_negatives_pred ld =
       reduce_mean (map (\<lambda>p. clip_by_value p (- 4000) 4000) (call m negatives_batch True)) \<and>
     ld_model_pred_average ld = reduce_mean (call m (design data_batch) training) \<and>
     (inp_batch_type \<noteq> ValidLiteral \<longrightarrow>
        (\<exists>inv. invalid_design data_batch = Some inv \<and>
           ld_y_value_infeasible ld =
             Some (clip_by_value (reduce_mean (call m inv training)) (- 1000) 1000000)))"
proof -
  from assms(2) obtain np0 ld0 loss0 where nf: "negatives_forward m data_batch training = Inr np0"
    and vl: "valid_losses m data_batch loss_type training ranking_penalty_weight np0
               = Inr (ld0, loss0)"
    and br: "inp_batch_type = ValidLiteral \<and> ld = ld0 \<and> train_loss = loss0 \<or>
         inp_batch_type \<noteq> ValidLiteral \<and>
         invalid_losses m data_batch training (ld0, loss0) = Inr (ld, train_loss)"
    by (rule compute_loss_cases)
  from nf assms(1) obtain nb where nb: "infer_negatives m data_batch = Inr nb"
    and np0: "np0 = call m nb True"
    by (auto simp: negatives_forward_def split: sum.splits)
  note v = valid_losses_fields [OF vl]
  from br show ?thesis
  proof
    assume "inp_batch_type = ValidLiteral \<and> ld = ld0 \<and> train_loss = loss0"
    with nb np0 v show ?thesis by auto
  next
    assume a: "inp_batch_type \<noteq> ValidLiteral \<and>
         invalid_losses m data_batch training (ld0, loss0) = Inr (ld, train_loss)"
    then have il: "invalid_losses m data_batch training (ld0, loss0) = Inr (ld, train_loss)" by simp
    note i = invalid_losses_fields [OF il]
    from i(6) have "\<exists>inv. invalid_design data_batch = Some inv \<and>
           ld_y_value_infeasible ld =
             Some (clip_by_value (reduce_mean (call m inv training)) (- 1000) 1000000)"
      by blast
    moreover have "ld_negatives_pred ld =
       reduce_mean (map (\<lambda>p. clip_by_value p (- 4000) 4000) (call m nb True))"
      using i(4) v(4) np0 by simp
    moreover have "ld_model_pred_average ld = reduce_mean (call m (design data_batch) training)"
      using i(5) v(5) by simp
    ultimately show ?thesis using nb by blast
  qed
qed

theorem compute_loss_negatives_always_training_witness:
  "\<exists>ld. negative_sampler linear_model = None \<and>
     compute_loss linear_model mixed_batch ''mse'' False 0 NoneArg = Inr (ld, - (967 / 20)) \<and>
     infer_negatives linear_model mixed_batch = Inr (design mixed_batch) \<and>
     call linear_model (design mixed_batch) True = [9 / 2, 18003 / 2, - (17997 / 2)] \<and>
     call linear_model (design mixed_batch) False = [3, 9003 / 2, - (8997 / 2)] \<and>
     ld_negatives_pred ld = reduce_mean [9 / 2, 4000, - 4000] \<and>
     ld_model_pred_average ld = reduce_mean [3, 9003 / 2, - (8997 / 2)] \<and>
     ld_y_value_infeasible ld = Some (- 1000)"
proof -
  from compute_loss_linear_mixed obtain ld where
    c: "compute_loss linear_model mixed_batch ''mse'' False 0 NoneArg = Inr (ld, - (967 / 20))"
    by blast
  have s: "negative_sampler linear_model = None" by (simp add: linear_model_sel)
  have i: "infer_negatives linear_model mixed_batch = Inr (design mixed_batch)"
    by (simp add: infer_negatives_def linear_model_sel)
  have t: "call linear_model (design mixed_batch) True = [9 / 2, 18003 / 2, - (17997 / 2)]"
    and f: "call linear_model (design mixed_batch) False = [3, 9003 / 2, - (8997 / 2)]"
    and d: "invalid_design mixed_batch = Some [design_row 2, design_row 2, design_row 0]"
    by (simp_all add: mixed_batch_def call_linear call_linear_Suc)
  have n: "NoneArg \<noteq> ValidLiteral" by simp
  from compute_loss_negatives_always_training [OF s c] i d n
  have "ld_negatives_pred ld =
       reduce_mean (map (\<lambda>p. clip_by_value p (- 4000) 4000)
          (call linear_model (design mixed_batch) True))"
    and "ld_model_pred_average ld = reduce_mean (call linear_model (design mixed_batch) False)"
    and "ld_y_value_infeasible ld =
             Some (clip_by_value
                (reduce_mean (call linear_model [design_row 2, design_row 2, design_row 0] False))
                (- 1000) 1000000)"
    by auto
  then have "ld_negatives_pred ld = reduce_mean [9 / 2, 4000, - 4000]"
    "ld_model_pred_average ld = reduce_mean [3, 9003 / 2, - (8997 / 2)]"
    "ld_y_value_infeasible ld = Some (- 1000)"
    by (simp_all add: t f call_linear call_linear_Suc reduce_mean_def clip_by_value_def)
  with s c i t f show ?thesis by blast
qed

text \<open>Every batch of two or more examples without the key \<open>invalid/design\<close> makes
  \<open>perform_training\<close> fail.\<close>

lemma perform_training_without_invalid_design:
  assumes "invalid_design batch = None"
    and "negatives_forward m batch True = Inr negatives_pred0"
    and "length (design batch) \<noteq> 1" and "length (objective batch) \<noteq> 1"
  shows "perform_training m batch loss_type ranking_penalty_weight
           = Inl (KeyError ''invalid/design'')"
  using assms
  by (simp add: perform_training_def compute_loss_def valid_losses_def invalid_losses_def
      call_with_logging_def ranking_loss_def Let_def)

text \<open>
  C2: \<open>perform_training\<close> calls \<open>compute_loss\<close> without \<open>inp_batch_type\<close>, so the
  branch of the invalid batch runs on every batch; on a batch of three examples without
  the \<open>invalid/design\<close> key it raises \<open>KeyError\<close>, and so does \<open>measure_stats\<close>
  without a batch type. Only with the literal \<open>'valid'\<close> is the term left out.
\<close>

theorem perform_training_valid_only_batch_key_error:
  "perform_training linear_model valid_only_batch ''mse'' 0
     = Inl (KeyError ''invalid/design'') \<and>
   measure_stats linear_model valid_only_batch NoneArg = Inl (KeyError ''invalid/design'') \<and>
   (\<exists>ld. compute_loss linear_model valid_only_batch ''mse'' True 0 ValidLiteral
            = Inr (ld, 67500012 / 5) \<and> ld_y_value_infeasible ld = None)"
proof -
  obtain v where v: "ranking_loss [3, 9003 / 2, - (8997 / 2)] [3, 4500, - 4500] = Inr v"
    by (rule ranking_loss_returns [of "[3, 9003 / 2, - (8997 / 2)]" "[3, 4500, - 4500]"]) simp_all
  obtain w where w: "ranking_loss [9 / 2, 18003 / 2, - (17997 / 2)] [3, 4500, - 4500] = Inr w"
    by (rule ranking_loss_returns [of "[9 / 2, 18003 / 2, - (17997 / 2)]" "[3, 4500, - 4500]"])
      simp_all
  show ?thesis
    by (simp add: perform_training_def measure_stats_def compute_loss_def
        negatives_forward_linear valid_losses_def invalid_losses_def valid_only_batch_def
        call_with_logging_linear call_linear call_linear_Suc v w clip_by_value_def reduce_mean_def
        weighted_mse_loss_def weighted_approx_loss_def linear_model_sel Let_def power2_eq_square)
qed

text \<open>For every model and input, \<open>vote_entropy\<close> is the negated entropy of the voting
  distribution.\<close>

lemma map2_same_list: "map2 h (map f xs) (map g xs) = map (\<lambda>x. h (f x) (g x)) xs"
  by (induction xs) simp_all

lemma vote_entropy_negated_entropy:
  assumes "wf_model m"
  shows "vote_entropy m x training = - entropy (vote_prob m x training)"
proof -
  let ?l = "vote_logit m x training"
  let ?S = "sum_list (map exp ?l)"
  have "?l \<noteq> []"
    using assms by (auto simp: vote_logit_def wf_model_def dest!: arg_cong [where f = length])
  then have S: "0 < ?S" by (rule sum_list_map_exp_pos)
  have ln: "ln (exp y / ?S) = y - ln ?S" for y
    using S by (simp add: ln_div)
  have "vote_entropy m x training = sum_list (map (\<lambda>y. (y - ln ?S) * (exp y / ?S)) ?l)"
    by (simp add: vote_entropy_def vote_prob_def log_softmax_def softmax_def map2_same_list)
  also have "\<dots> = sum_list (map (\<lambda>y. exp y / ?S * ln (exp y / ?S)) ?l)"
    by (simp add: ln mult.commute)
  also have "\<dots> = - entropy (vote_prob m x training)"
    by (simp add: entropy_def vote_prob_def softmax_def comp_def)
  finally show ?thesis .
qed

text \<open>
  C8: for two experts with equal logits the voting distribution is \<open>[1/2, 1/2]\<close>, of
  entropy \<open>ln 2\<close>; the \<open>vote_entropy\<close> that \<open>call\<close> returns is \<open>- ln 2\<close>, the negated
  entropy, a negative number.
\<close>

theorem vote_entropy_is_negated_entropy:
  "snd (call_with_logging two_vote_model [[1, 2]] False) = - ln 2 \<and>
   reduce_mean (map (\<lambda>x. entropy (vote_prob two_vote_model x False)) [[1, 2]]) = ln 2 \<and>
   snd (call_with_logging two_vote_model [[1, 2]] False) < 0"
  by (simp add: call_with_logging_two_single entropy_def vote_prob_two reduce_mean_def ln_div)

section \<open>Properties of the negative-sample generator\<close>

lemma quadratic_model_sel:
  "num_votes quadratic_model = 1"
  "base_network quadratic_model = (\<lambda>x training. x)"
  "all_networks quadratic_model = [\<lambda>e training. sum_list (map (\<lambda>v. v\<^sup>2) e) / 2]"
  "voting_network quadratic_model = (\<lambda>e training. [0])"
  "opt_lr quadratic_model = 1"
  "num_gradient_infer_steps quadratic_model = 1"
  "input_grad quadratic_model = (\<lambda>x. x)"
  by (simp_all add: quadratic_model_def)

lemma fwd_model_pred_quadratic:
  "fwd_model_pred quadratic_model x training = sum_list (map (\<lambda>v. v\<^sup>2) x) / 2"
  by (simp add: fwd_model_pred_def vote_prob_def vote_logit_def softmax_def all_outputs_def
      quadratic_model_sel)

lemma input_grad_quadratic_is_gradient:
  "((\<lambda>t. fwd_model_pred quadratic_model [t] False) has_real_derivative
      hd (input_grad quadratic_model [t])) (at t)"
  unfolding fwd_model_pred_quadratic quadratic_model_sel
  by (auto intro!: derivative_eq_intros)

text \<open>Every row of a non-empty batch moves by the gradient of the first example.\<close>

lemma infer_negatives_step_first_gradient:
  "infer_negatives_step m (x # xs) =
     Inr (map (\<lambda>row. map2 (+) row (map (\<lambda>g. opt_lr m * g) (input_grad m x))) (x # xs))"
  by (simp add: infer_negatives_step_def)

text \<open>
  C3: on a batch of the two examples \<open>[1]\<close> and \<open>[2]\<close>, whose own gradients are
  \<open>[1]\<close> and \<open>[2]\<close>, one iteration of \<open>infer_negatives\<close> adds the gradient of the
  first example to both: the second example becomes \<open>[3]\<close>, where its own gradient
  would give \<open>[4]\<close>.
\<close>

theorem infer_negatives_adds_first_gradient_to_all:
  "infer_negatives quadratic_model two_example_batch = Inr [[2], [3]] \<and>
   own_gradient_step quadratic_model (design two_example_batch) = [[2], [4]]"
  by (simp add: infer_negatives_def infer_negatives_step_def own_gradient_step_def
      two_example_batch_def quadratic_model_sel)

section \<open>Properties of the dataset\<close>

subsection \<open>Loading the example records\<close>

lemma load_or_refresh_config_example:
  "load_or_refresh_config example_config =
     Inr [[1, 2, 4], [1, 2, 4], [1, 2, 4], [1, 2, 4], [1, 2, 4],
          [1, 2, 4], [1, 2, 4], [1, 2, 4], [1, 2, 4], [1, 2, 4]]"
  by (simp add: load_or_refresh_config_def active_training_keys_def design_space_dict_def
      example_config_def)

lemma load_or_refresh_config_one_field:
  "load_or_refresh_config one_field_config = Inl (KeyError ''param_2'')"
  by (simp add: load_or_refresh_config_def active_training_keys_def design_space_dict_def
      one_field_config_def)

lemma PRIMEDataset_one_field:
  "PRIMEDataset one_field_config data_dict = Inl (KeyError ''param_2'')"
  by (simp add: PRIMEDataset_def load_or_refresh_config_one_field)

lemma cast_int32_numerals [simp]:
  "cast_int32 1 = 1" "cast_int32 2 = 2" "cast_int32 4 = 4"
  "cast_int32 (5 / 2) = 2" "cast_int32 (7 / 2) = 3"
  "cast_int32 10 = 10" "cast_int32 50 = 50" "cast_int32 30 = 30"
  by (simp_all add: cast_int32_def)

lemma narrow_int32_small [simp]:
  "narrow_int32 0 = 0" "narrow_int32 1 = 1"
  "narrow_int32 (- 2) = - 2" "narrow_int32 (- 3) = - 3" "narrow_int32 (- 4) = - 4"
  by (simp_all add: narrow_int32_def)

lemma PRIMEDataset_example:
  "PRIMEDataset example_config example_records = Inr example_dataset"
  by (simp add: PRIMEDataset_def load_or_refresh_config_example convert_to_tf_dataset_def
      get_score_function_def active_training_keys_def example_records_def example_dataset_def
      Let_def numeral_2_eq_2 numeral_3_eq_3)

lemma PRIMEDataset_empty_source:
  "PRIMEDataset example_config [] = Inl ValueError"
  by (simp add: PRIMEDataset_def load_or_refresh_config_example convert_to_tf_dataset_def
      get_score_function_def active_training_keys_def Let_def)

lemma get_feasible_probs_example:
  "get_feasible_probs example_dataset False =
     Inr ([Finite (1 / 2), Finite 0, Finite (1 / 2)], [Finite 0, Finite 1, Finite 0])"
  "get_feasible_probs example_dataset True = Inl TypeError"
  by (simp_all add: get_feasible_probs_def feasible_vec_def example_dataset_def np_divide_def)

text \<open>The score of every loaded record is the negated 32-bit cast of its runtime; it is
  the negated runtime when the runtime is a whole number.\<close>

lemma PRIMEDataset_score:
  assumes "PRIMEDataset cfg data_dict = Inr ds"
  shows "tf_score ds =
     map (\<lambda>p. real_of_int (narrow_int32 (- cast_int32 (r_runtime p)))) data_dict"
  using assms
  by (auto simp: PRIMEDataset_def convert_to_tf_dataset_def get_score_function_def Let_def
      comp_def split: sum.splits if_splits)

lemma cast_int32_of_int:
  "- (2 ^ 31) \<le> t \<Longrightarrow> t < 2 ^ 31 \<Longrightarrow> cast_int32 (real_of_int t) = t"
  by (simp add: cast_int32_def)

lemma narrow_int32_id: "- (2 ^ 31) \<le> x \<Longrightarrow> x < 2 ^ 31 \<Longrightarrow> narrow_int32 x = x"
  by (simp add: narrow_int32_def)

lemma PRIMEDataset_score_whole_runtime:
  assumes "PRIMEDataset cfg data_dict = Inr ds"
    and "i < length data_dict"
    and "r_runtime (data_dict ! i) = real_of_int t"
    and "- (2 ^ 31) < t" and "t < 2 ^ 31"
  shows "tf_score ds ! i = - r_runtime (data_dict ! i)"
proof -
  have "cast_int32 (real_of_int t) = t"
    using assms(4,5) by (intro cast_int32_of_int) simp_all
  moreover have "narrow_int32 (- t) = - t"
    using assms(4,5) by (intro narrow_int32_id) simp_all
  ultimately show ?thesis
    using PRIMEDataset_score [OF assms(1)] assms(2,3) by simp
qed

text \<open>
  C5: the loaded score is the negation of the runtime after its conversion to a 32-bit
  integer: with the ten fields configured, the runtimes \<open>2.5, 4, 3.5\<close> give the scores
  \<open>-2, -4, -3\<close>, not \<open>-2.5, -4, -3.5\<close>.
\<close>

theorem score_truncates_runtime:
  "map_sum id tf_score (PRIMEDataset example_config example_records) = Inr [- 2, - 4, - 3] \<and>
   map (\<lambda>p. - r_runtime p) example_records = [- (5 / 2), - 4, - (7 / 2)]"
  by (simp add: PRIMEDataset_example) (simp add: example_dataset_def example_records_def)

subsection \<open>Feasibility probabilities\<close>

text \<open>Without the area constraint, for 0/1 flags and two non-empty partitions,
  \<open>get_feasible_probs\<close> returns the two uniform vectors of the specification.\<close>

lemma sum_list_divide_const:
  "sum_list (map (\<lambda>x. f x / c) xs) = sum_list (map f xs) / (c::real)"
  by (induction xs) (simp_all add: add_divide_distrib)

lemma sum_list_indicator:
  "sum_list (map (\<lambda>x. if P x then 1 else 0) xs) = real (length (filter P xs))"
  by (induction xs) simp_all

lemma partition_probs_map:
  "partition_probs (map P xs) =
     map (\<lambda>x. (if P x then 1 else 0) / real (length (filter P xs))) xs"
  by (simp add: partition_probs_def filter_map comp_def)

lemma sum_list_partition_probs:
  "filter P xs \<noteq> [] \<Longrightarrow> sum_list (partition_probs (map P xs)) = 1"
  by (simp add: partition_probs_map sum_list_divide_const sum_list_indicator)

lemma PRIMEDataset_infeasible_np:
  assumes "PRIMEDataset cfg data_dict = Inr ds"
  shows "infeasible_np ds = map (\<lambda>p. real_of_int (narrow_int32 (r_infeasible p))) data_dict"
  using assms
  by (auto simp: PRIMEDataset_def convert_to_tf_dataset_def get_score_function_def Let_def
      comp_def split: sum.splits if_splits)

lemma get_feasible_probs_uniform_without_area:
  assumes "PRIMEDataset cfg data_dict = Inr ds"
    and "\<forall>p \<in> set data_dict. r_infeasible p = 0 \<or> r_infeasible p = 1"
    and "\<exists>p \<in> set data_dict. record_feasible p False"
    and "\<exists>p \<in> set data_dict. \<not> record_feasible p False"
  shows "get_feasible_probs ds False =
           Inr (map Finite (fst (spec_feasible_probs data_dict False)),
                map Finite (snd (spec_feasible_probs data_dict False))) \<and>
         sum_list (fst (spec_feasible_probs data_dict False)) = 1 \<and>
         sum_list (snd (spec_feasible_probs data_dict False)) = 1"
proof -
  let ?P = "\<lambda>p. record_feasible p False"
  let ?N = "\<lambda>p. \<not> record_feasible p False"
  have fv: "feasible_vec ds = map (\<lambda>p. if ?P p then 1 else 0) data_dict"
    unfolding feasible_vec_def PRIMEDataset_infeasible_np [OF assms(1)]
    using assms(2) by (auto simp: record_feasible_def narrow_int32_def)
  have k: "filter ?P data_dict \<noteq> []" and l: "filter ?N data_dict \<noteq> []"
    using assms(3,4) by (auto simp: filter_empty_conv)
  have s1: "sum_list (feasible_vec ds) = real (length (filter ?P data_dict))"
    by (simp add: fv sum_list_indicator)
  have "map (\<lambda>f. 1 - f) (feasible_vec ds) = map (\<lambda>p. if ?N p then 1 else 0) data_dict"
    by (simp add: fv)
  then have s2: "sum_list (map (\<lambda>f. 1 - f) (feasible_vec ds)) = real (length (filter ?N data_dict))"
    by (simp add: sum_list_indicator)
  have "get_feasible_probs ds False =
           Inr (map Finite (fst (spec_feasible_probs data_dict False)),
                map Finite (snd (spec_feasible_probs data_dict False)))"
    unfolding get_feasible_probs_def Let_def s1 s2
    using k l by (simp add: fv np_divide_def spec_feasible_probs_def partition_probs_map)
  moreover have "sum_list (fst (spec_feasible_probs data_dict False)) = 1"
    using k by (simp add: spec_feasible_probs_def sum_list_partition_probs)
  moreover have "sum_list (snd (spec_feasible_probs data_dict False)) = 1"
    using l by (simp add: spec_feasible_probs_def sum_list_partition_probs)
  ultimately show ?thesis by blast
qed

text \<open>
  C6: with \<open>add_area_constraints\<close> on, \<open>get_feasible_probs\<close> raises \<open>TypeError\<close> on the
  loaded example records, and so does the constructor of the problem; the specification
  gives \<open>[1, 0, 0]\<close> and \<open>[0, 1/2, 1/2]\<close> there. With the flag off the same dataset gives
  the uniform vectors of the specification.
\<close>

theorem get_feasible_probs_area_constraints_type_error:
  "map_sum id (\<lambda>ds. (get_feasible_probs ds True, get_feasible_probs ds False))
     (PRIMEDataset example_config example_records)
   = Inr (Inl TypeError,
          Inr ([Finite (1 / 2), Finite 0, Finite (1 / 2)], [Finite 0, Finite 1, Finite 0])) \<and>
   HardwareOptProblem example_config example_records (Some area_params) = Inl TypeError \<and>
   spec_feasible_probs example_records True = ([1, 0, 0], [0, 1 / 2, 1 / 2]) \<and>
   spec_feasible_probs example_records False = ([1 / 2, 0, 1 / 2], [0, 1, 0])"
  by (simp add: PRIMEDataset_example get_feasible_probs_example HardwareOptProblem_def
      area_params_def)
     (simp add: spec_feasible_probs_def partition_probs_def record_feasible_def
      example_records_def AREA_THRESHOLD_def)

subsection \<open>Empty partitions\<close>








lemma HardwareOptProblem_fields:
  assumes "HardwareOptProblem cfg data_file (Some pd) = Inr prob"
  shows "get_feasible_probs (dataset prob) False = Inr (feasible_probs prob, infeasible_probs prob)"
    and "u_add_area_constraints prob = False"
    and "u_batch_size prob = pd_batch_size pd"
    and "batch_size prob = 256"
    and "PRIMEDataset cfg data_file = Inr (dataset prob)"
  using assms
  by (auto simp: HardwareOptProblem_def Let_def get_feasible_probs_def
      split: sum.splits prod.splits option.splits if_splits)

lemma HardwareOptProblem_area_constraints:
  "pd_add_area_constraints pd = Some True \<Longrightarrow> PRIMEDataset cfg data_file = Inr ds \<Longrightarrow>
     HardwareOptProblem cfg data_file (Some pd) = Inl TypeError"
  by (simp add: HardwareOptProblem_def get_feasible_probs_def)






subsection \<open>The default batch size\<close>

lemma HardwareOptProblem_example:
  "HardwareOptProblem example_config example_records (Some batch_size_params) = Inr example_problem"
  by (simp add: HardwareOptProblem_def PRIMEDataset_example batch_size_params_def
      get_feasible_probs_example example_problem_def)

lemma np_random_choice_example:
  "np_random_choice 3 2 [Finite (1 / 2), Finite 0, Finite (1 / 2)] (\<lambda>k. 0)
     = Inr ([0, 0], \<lambda>k. 0)"
  by (simp add: np_random_choice_def finite_vals_def choice_atol_def searchsorted_right_def
      Let_def upt_rec numeral_2_eq_2)

lemma explicit_batch_size_samples:
  "map_sum id fst (get_training_batch example_problem (\<lambda>k. 0))
   = Inr \<lparr>design = [design_row 0, design_row 0],
          objective = [- 2, - 2],
          invalid_design = None, invalid_objective = None\<rparr>"
proof -
  have "get_batch example_dataset [0, 0]
          = Inr ([design_row 0, design_row 0], [- 2, - 2])"
    by (simp add: get_batch_def design_row_def example_dataset_def eval_nat_numeral)
  moreover have "top example_dataset = 3" by (simp add: example_dataset_def)
  ultimately show ?thesis
    by (simp add: get_training_batch_def get_valid_only_batch_def example_problem_def
        np_random_choice_example)
qed

text \<open>Whatever the record source, a problem built without \<open>batch_size\<close> cannot sample.\<close>

lemma missing_batch_size_attribute_error:
  assumes "HardwareOptProblem cfg data_file (Some pd) = Inr prob"
    and "pd_batch_size pd = None"
  shows "batch_size prob = 256 \<and>
         get_training_batch prob g = Inl (AttributeError ''_batch_size'')"
  using HardwareOptProblem_fields [OF assms(1)] assms(2)
  by (simp add: get_training_batch_def get_valid_only_batch_def get_mixed_batch_def
      get_all_batch_def)

text \<open>
  C9: without the key \<open>batch_size\<close> the constructor sets \<open>self.batch_size = 256\<close> and
  never \<open>self._batch_size\<close>, which the samplers read: with the ten fields configured
  construction succeeds and the first \<open>get_training_batch\<close> raises \<open>AttributeError\<close>.
\<close>

theorem default_batch_size_attribute_error:
  "map_sum id (\<lambda>prob. (batch_size prob, u_batch_size prob, u_batch_type prob,
                         get_training_batch prob (\<lambda>k. 0)))
     (HardwareOptProblem example_config example_records (Some empty_params))
   = Inr (256, None, ''valid'', Inl (AttributeError ''_batch_size''))"
  by (simp add: HardwareOptProblem_def PRIMEDataset_example empty_params_def
      get_feasible_probs_example get_training_batch_def get_valid_only_batch_def)

end
